theory Spec2Isabelle
  imports Main "HOL-Library.Word"
begin

section \<open>The dynamic-fee transaction of blockchain/types\<close>

text \<open>
  The second file of \<^verbatim>\<open>src/cmd/homi/genesis/options.go\<close> (package \<^verbatim>\<open>types\<close>, from
  line 172 on) declares \<^verbatim>\<open>TxInternalDataDynamicFee\<close>, its constructors, its encoders
  and its dispatch into the virtual machine. This theory embeds that code.

  Go values are modelled as follows.
  \<^item> \<^verbatim>\<open>uint64\<close> is \<open>64 word\<close>, \<^verbatim>\<open>byte\<close> is \<open>8 word\<close>.
  \<^item> \<^verbatim>\<open>common.Address\<close> (20 bytes) is \<open>160 word\<close>, \<^verbatim>\<open>common.Hash\<close> (32 bytes) is
    \<open>256 word\<close>.
  \<^item> \<^verbatim>\<open>*big.Int\<close> is \<open>int option\<close>: \<open>None\<close> is the nil pointer, \<open>Some n\<close> a cell
    holding \<open>n\<close>. Cells are held by value, so two cells with the same content are the
    same value and \<^verbatim>\<open>Set\<close> is assignment of the content.
  \<^item> a slice is \<open>'a list option\<close>: \<open>None\<close> is the nil slice, \<open>Some []\<close> the empty
    slice that is not nil (\<^verbatim>\<open>reflect.DeepEqual\<close> tells them apart).
  \<^item> a pointer to a struct or an address is an \<open>option\<close>.
  \<^item> a run-time panic and an \<^verbatim>\<open>error\<close> return are values of \<open>failure\<close>.
\<close>

type_synonym byte = "8 word"
type_synonym uint64 = "64 word"
type_synonym address = "160 word"
type_synonym hash = "256 word"
type_synonym bigInt = "int option"

text \<open>
  Modelled from the spec: the declaration of \<^verbatim>\<open>AccessTuple\<close> is not among the sources.
  An access list is an ordered sequence of pairs of an address and an ordered sequence of
  32-byte storage keys.
\<close>

datatype AccessTuple = AccessTuple (Address: address) (StorageKeys: "hash list option")

type_synonym AccessList = "AccessTuple list option"

record TxInternalDataDynamicFee =
  ChainID :: bigInt
  AccountNonce :: uint64
  GasTipCap :: bigInt
  GasFeeCap :: bigInt
  GasLimit :: uint64
  Recipient :: "address option"
  Amount :: bigInt
  Payload :: "byte list option"
  AccessList :: AccessList
  V :: bigInt
  R :: bigInt
  S :: bigInt
  Hash :: "hash option"

datatype error =
    errValueKeyNonceMustUint64
  | errValueKeyToMustAddress
  | errValueKeyAmountMustBigInt
  | errValueKeyDataMustByteSlice
  | errValueKeyGasLimitMustUint64
  | errValueKeyGasFeeCapMustBigInt
  | errValueKeyGasTipCapMustBigInt
  | errValueKeyAccessListInvalid
  | errValueKeyChainIDInvalid
  | errUndefinedKeyRemains
  | ErrPrecompiledContractAddress
  | errDecode string

datatype panic = NilPointerDereference | IndexOutOfRange

datatype failure = Err error | Panic panic

subsection \<open>Slices\<close>

text \<open>\<^verbatim>\<open>len\<close> of a slice; the nil slice has length 0.\<close>

definition len :: "'a list option \<Rightarrow> nat" where
  "len s = (case s of None \<Rightarrow> 0 | Some xs \<Rightarrow> length xs)"

text \<open>
  The built-in \<^verbatim>\<open>copy(dst, src)\<close> overwrites the first \<open>min (len dst) (len src)\<close>
  elements of \<open>dst\<close> and never changes the length of \<open>dst\<close>.
\<close>

definition copy :: "'a list option \<Rightarrow> 'a list option \<Rightarrow> 'a list option" where
  "copy dst src =
     (case dst of
        None \<Rightarrow> None
      | Some ds \<Rightarrow>
          (let ss = (case src of None \<Rightarrow> [] | Some xs \<Rightarrow> xs);
               n = min (length ds) (length ss)
           in Some (take n ss @ drop n ds)))"

text \<open>\<^verbatim>\<open>make(AccessList, n)\<close>: \<open>n\<close> zero-valued tuples.\<close>

definition make_AccessList :: "nat \<Rightarrow> AccessList" where
  "make_AccessList n = Some (replicate n (AccessTuple 0 None))"

text \<open>
  Modelled from the spec: \<^verbatim>\<open>common.CopyBytes\<close> is not among the sources. It returns a
  fresh buffer with the same content (nil for nil), which for values is the identity.
\<close>

definition CopyBytes :: "byte list option \<Rightarrow> byte list option" where
  "CopyBytes b = b"

subsection \<open>Constructors\<close>

definition newEmptyTxInternalDataDynamicFee :: TxInternalDataDynamicFee where
  "newEmptyTxInternalDataDynamicFee =
     \<lparr> ChainID = None, AccountNonce = 0, GasTipCap = None, GasFeeCap = None, GasLimit = 0,
       Recipient = None, Amount = None, Payload = None, AccessList = None,
       V = None, R = None, S = None, Hash = None \<rparr>"

definition newTxInternalDataDynamicFee :: TxInternalDataDynamicFee where
  "newTxInternalDataDynamicFee =
     \<lparr> ChainID = Some 0, AccountNonce = 0, GasTipCap = Some 0, GasFeeCap = Some 0,
       GasLimit = 0, Recipient = None, Amount = Some 0, Payload = Some [],
       AccessList = Some [], V = Some 0, R = Some 0, S = Some 0, Hash = None \<rparr>"

definition newTxInternalDataDynamicFeeWithValues ::
  "uint64 \<Rightarrow> address option \<Rightarrow> bigInt \<Rightarrow> uint64 \<Rightarrow> bigInt \<Rightarrow> bigInt \<Rightarrow>
   byte list option \<Rightarrow> AccessList \<Rightarrow> bigInt \<Rightarrow> TxInternalDataDynamicFee" where
  "newTxInternalDataDynamicFeeWithValues nonce to amount gasLimit gasTipCap gasFeeCap
       data accessList chainID =
     (let d0 = newTxInternalDataDynamicFee;
          d1 = d0\<lparr>AccountNonce := nonce, Recipient := to, GasLimit := gasLimit\<rparr>;
          d2 = (if len data > 0 then d1\<lparr>Payload := CopyBytes data\<rparr> else d1);
          d3 = (case amount of None \<Rightarrow> d2 | Some a \<Rightarrow> d2\<lparr>Amount := Some a\<rparr>);
          d4 = (case gasTipCap of None \<Rightarrow> d3 | Some g \<Rightarrow> d3\<lparr>GasTipCap := Some g\<rparr>);
          d5 = (case gasFeeCap of None \<Rightarrow> d4 | Some g \<Rightarrow> d4\<lparr>GasFeeCap := Some g\<rparr>);
          d6 = (case accessList of
                  None \<Rightarrow> d5
                | Some al \<Rightarrow> d5\<lparr>AccessList := copy (AccessList d5) (Some al)\<rparr>);
          d7 = (case chainID of None \<Rightarrow> d6 | Some c \<Rightarrow> d6\<lparr>ChainID := Some c\<rparr>)
      in d7)"


subsection \<open>Construction from a keyed map\<close>

text \<open>
  Modelled from the spec: the declarations of \<^verbatim>\<open>TxValueKeyType\<close> and of its constants
  are not among the sources. The nine keys the constructor reads are the constants named
  in the code; any other key token is \<open>TxValueKeyOther\<close> with its name.
\<close>

datatype TxValueKeyType =
    TxValueKeyNonce
  | TxValueKeyTo
  | TxValueKeyAmount
  | TxValueKeyData
  | TxValueKeyGasLimit
  | TxValueKeyGasFeeCap
  | TxValueKeyGasTipCap
  | TxValueKeyAccessList
  | TxValueKeyChainID
  | TxValueKeyOther string

text \<open>
  A value of type \<^verbatim>\<open>interface{}\<close>, by its dynamic type: the types the code asserts or
  stores, and \<open>OtherVal\<close> for a value of any other type. A missing map entry is the nil
  interface, \<open>None\<close> of \<open>iface option\<close>.
\<close>

datatype iface =
    Uint64Val uint64
  | AddressVal address
  | AddressPtr "address option"
  | BigIntPtr bigInt
  | BytesVal "byte list option"
  | AccessListVal AccessList
  | OtherVal string

type_synonym valueMap = "TxValueKeyType \<rightharpoonup> iface"

text \<open>\<^verbatim>\<open>logger.Warn(msg, k.String())\<close>: the message and the key it names.\<close>

datatype log_entry = Warn string TxValueKeyType

text \<open>The type assertions \<^verbatim>\<open>v, ok := x.(T)\<close>; \<open>None\<close> is \<^verbatim>\<open>ok == false\<close>.\<close>

definition assertUint64 :: "iface option \<Rightarrow> uint64 option" where
  "assertUint64 x = (case x of Some (Uint64Val v) \<Rightarrow> Some v | _ \<Rightarrow> None)"

definition assertAddress :: "iface option \<Rightarrow> address option" where
  "assertAddress x = (case x of Some (AddressVal v) \<Rightarrow> Some v | _ \<Rightarrow> None)"

definition assertBigInt :: "iface option \<Rightarrow> bigInt option" where
  "assertBigInt x = (case x of Some (BigIntPtr v) \<Rightarrow> Some v | _ \<Rightarrow> None)"

definition assertBytes :: "iface option \<Rightarrow> byte list option option" where
  "assertBytes x = (case x of Some (BytesVal v) \<Rightarrow> Some v | _ \<Rightarrow> None)"

definition assertAccessList :: "iface option \<Rightarrow> AccessList option" where
  "assertAccessList x = (case x of Some (AccessListVal v) \<Rightarrow> Some v | _ \<Rightarrow> None)"

text \<open>
  \<^verbatim>\<open>z.Set(x)\<close> on an allocated cell \<open>z\<close>: the new content of \<open>z\<close>. It reads \<open>x\<close>, so
  a nil \<open>x\<close> panics.
\<close>

definition big_Set :: "bigInt \<Rightarrow> failure + bigInt" where
  "big_Set x = (case x of None \<Rightarrow> Inl (Panic NilPointerDereference) | Some n \<Rightarrow> Inr (Some n))"

text \<open>
  One block \<^verbatim>\<open>if v, ok := values[k].(T); ok { store v; delete(values, k) } else
  { return nil, e }\<close> of the constructor, on the instance under construction and the
  caller's map. The failure carries the map as the block leaves it.
\<close>

type_synonym build = "(failure \<times> valueMap) + (TxInternalDataDynamicFee \<times> valueMap)"

definition take_key ::
  "TxValueKeyType \<Rightarrow> (iface option \<Rightarrow> 'a option) \<Rightarrow> error \<Rightarrow>
   ('a \<Rightarrow> TxInternalDataDynamicFee \<Rightarrow> failure + TxInternalDataDynamicFee) \<Rightarrow>
   build \<Rightarrow> build" where
  "take_key k assert e store b =
     (case b of
        Inl f \<Rightarrow> Inl f
      | Inr (d, vs) \<Rightarrow>
          (case assert (vs k) of
             None \<Rightarrow> Inl (Err e, vs)
           | Some v \<Rightarrow>
               (case store v d of
                  Inl f \<Rightarrow> Inl (f, vs)
                | Inr d' \<Rightarrow> Inr (d', vs(k := None)))))"

definition set_Amount :: "bigInt \<Rightarrow> TxInternalDataDynamicFee \<Rightarrow> failure + TxInternalDataDynamicFee" where
  "set_Amount v d = (case big_Set v of Inl f \<Rightarrow> Inl f | Inr c \<Rightarrow> Inr (d\<lparr>Amount := c\<rparr>))"

definition set_GasFeeCap :: "bigInt \<Rightarrow> TxInternalDataDynamicFee \<Rightarrow> failure + TxInternalDataDynamicFee" where
  "set_GasFeeCap v d = (case big_Set v of Inl f \<Rightarrow> Inl f | Inr c \<Rightarrow> Inr (d\<lparr>GasFeeCap := c\<rparr>))"

definition set_GasTipCap :: "bigInt \<Rightarrow> TxInternalDataDynamicFee \<Rightarrow> failure + TxInternalDataDynamicFee" where
  "set_GasTipCap v d = (case big_Set v of Inl f \<Rightarrow> Inl f | Inr c \<Rightarrow> Inr (d\<lparr>GasTipCap := c\<rparr>))"

definition set_ChainID :: "bigInt \<Rightarrow> TxInternalDataDynamicFee \<Rightarrow> failure + TxInternalDataDynamicFee" where
  "set_ChainID v d = (case big_Set v of Inl f \<Rightarrow> Inl f | Inr c \<Rightarrow> Inr (d\<lparr>ChainID := c\<rparr>))"

text \<open>The nine blocks of the constructor, in the order of the source.\<close>

definition read_keys :: "valueMap \<Rightarrow> build" where
  "read_keys vals =
     take_key TxValueKeyChainID assertBigInt errValueKeyChainIDInvalid set_ChainID
      (take_key TxValueKeyAccessList assertAccessList errValueKeyAccessListInvalid
         (\<lambda>v d. Inr (d\<lparr>AccessList := copy (make_AccessList (len v)) v\<rparr>))
      (take_key TxValueKeyGasTipCap assertBigInt errValueKeyGasTipCapMustBigInt set_GasTipCap
      (take_key TxValueKeyGasFeeCap assertBigInt errValueKeyGasFeeCapMustBigInt set_GasFeeCap
      (take_key TxValueKeyGasLimit assertUint64 errValueKeyGasLimitMustUint64
         (\<lambda>v d. Inr (d\<lparr>GasLimit := v\<rparr>))
      (take_key TxValueKeyData assertBytes errValueKeyDataMustByteSlice
         (\<lambda>v d. Inr (d\<lparr>Payload := CopyBytes v\<rparr>))
      (take_key TxValueKeyAmount assertBigInt errValueKeyAmountMustBigInt set_Amount
      (take_key TxValueKeyTo assertAddress errValueKeyToMustAddress
         (\<lambda>v d. Inr (d\<lparr>Recipient := Some v\<rparr>))
      (take_key TxValueKeyNonce assertUint64 errValueKeyNonceMustUint64
         (\<lambda>v d. Inr (d\<lparr>AccountNonce := v\<rparr>))
      (Inr (newTxInternalDataDynamicFee, vals))))))))))"

text \<open>
  The constructor returns the instance or the failure; the model also returns the
  caller's map as the call leaves it and the warnings logged. The loop over the remaining
  keys runs in the map's unspecified order, so the warnings are a set.
\<close>

definition newTxInternalDataDynamicFeeWithMap ::
  "valueMap \<Rightarrow> (failure + TxInternalDataDynamicFee) \<times> valueMap \<times> log_entry set" where
  "newTxInternalDataDynamicFeeWithMap vals =
     (case read_keys vals of
        Inl (f, vs) \<Rightarrow> (Inl f, vs, {})
      | Inr (d, vs) \<Rightarrow>
          (if vs = Map.empty then (Inr d, vs, {})
           else (Inl (Err errUndefinedKeyRemains), vs, Warn ''unnecessary key'' ` dom vs)))"

subsection \<open>Signing payload\<close>

definition SerializeForSign :: "TxInternalDataDynamicFee \<Rightarrow> iface list" where
  "SerializeForSign t =
     [ Uint64Val (AccountNonce t),
       BigIntPtr (GasTipCap t),
       BigIntPtr (GasFeeCap t),
       Uint64Val (GasLimit t),
       AddressPtr (Recipient t),
       BigIntPtr (Amount t),
       BytesVal (Payload t),
       AccessListVal (AccessList t) ]"

subsection \<open>Equality\<close>

text \<open>
  \<^verbatim>\<open>x.Cmp(y) == 0\<close> on two cell pointers. \<^verbatim>\<open>Cmp\<close> returns 0 for the same pointer
  before it reads either cell, so two nil pointers compare equal; one nil pointer against
  a cell is a nil dereference.
\<close>

definition big_Cmp_is_0 :: "bigInt \<Rightarrow> bigInt \<Rightarrow> failure + bool" where
  "big_Cmp_is_0 x y =
     (case (x, y) of
        (None, None) \<Rightarrow> Inr True
      | (Some a, Some b) \<Rightarrow> Inr (a = b)
      | _ \<Rightarrow> Inl (Panic NilPointerDereference))"

text \<open>\<^verbatim>\<open>a && b\<close>: \<open>b\<close> is evaluated only when \<open>a\<close> is true.\<close>

definition andalso :: "failure + bool \<Rightarrow> failure + bool \<Rightarrow> failure + bool" where
  "andalso a b = (case a of Inl f \<Rightarrow> Inl f | Inr c \<Rightarrow> (if c then b else Inr False))"

text \<open>
  Modelled from the spec: \<^verbatim>\<open>equalRecipient\<close> is not among the sources. Two recipients
  are equal when both are absent or both are present with the same address.
\<close>

definition equalRecipient :: "address option \<Rightarrow> address option \<Rightarrow> bool" where
  "equalRecipient a b = (a = b)"

text \<open>
  \<^verbatim>\<open>reflect.DeepEqual\<close> on two access lists: element by element in order, a nil slice
  different from an empty one.
\<close>

definition DeepEqual :: "AccessList \<Rightarrow> AccessList \<Rightarrow> bool" where
  "DeepEqual a b = (a = b)"

text \<open>The argument of \<^verbatim>\<open>Equal\<close> is any transaction variant.\<close>

datatype TxInternalData = DynamicFee TxInternalDataDynamicFee | OtherVariant

definition Equal :: "TxInternalDataDynamicFee \<Rightarrow> TxInternalData \<Rightarrow> failure + bool" where
  "Equal t a =
     (case a of
        OtherVariant \<Rightarrow> Inr False
      | DynamicFee ta \<Rightarrow>
          andalso (big_Cmp_is_0 (ChainID t) (ChainID ta))
         (andalso (Inr (AccountNonce t = AccountNonce ta))
         (andalso (big_Cmp_is_0 (GasFeeCap t) (GasFeeCap ta))
         (andalso (big_Cmp_is_0 (GasTipCap t) (GasTipCap ta))
         (andalso (Inr (GasLimit t = GasLimit ta))
         (andalso (Inr (equalRecipient (Recipient t) (Recipient ta)))
         (andalso (big_Cmp_is_0 (Amount t) (Amount ta))
         (andalso (Inr (DeepEqual (AccessList t) (AccessList ta)))
         (andalso (big_Cmp_is_0 (V t) (V ta))
         (andalso (big_Cmp_is_0 (R t) (R ta))
                  (big_Cmp_is_0 (S t) (S ta))))))))))))"

subsection \<open>Signature range validation\<close>

text \<open>
  \<^verbatim>\<open>byte(x.Uint64())\<close>: \<^verbatim>\<open>Uint64\<close> returns the low 64 bits of the magnitude of \<open>x\<close>,
  the conversion to \<^verbatim>\<open>byte\<close> keeps the low 8 of them.
\<close>

definition big_Uint64 :: "int \<Rightarrow> uint64" where
  "big_Uint64 x = word_of_int \<bar>x\<bar>"

definition byte_of_uint64 :: "uint64 \<Rightarrow> byte" where
  "byte_of_uint64 w = ucast w"

text \<open>
  \<^verbatim>\<open>crypto.ValidateSignatureValues\<close> is not among the sources and is a parameter of
  \<open>ValidateSignature\<close>: it is given the low byte of \<open>V\<close>, the cells \<open>R\<close> and \<open>S\<close> and
  the constant \<^verbatim>\<open>false\<close>. Reading a nil \<open>V\<close> panics before the call.
\<close>

definition ValidateSignature ::
  "(byte \<Rightarrow> bigInt \<Rightarrow> bigInt \<Rightarrow> bool \<Rightarrow> failure + bool) \<Rightarrow> TxInternalDataDynamicFee \<Rightarrow>
   failure + bool" where
  "ValidateSignature ValidateSignatureValues t =
     (case V t of
        None \<Rightarrow> Inl (Panic NilPointerDereference)
      | Some x \<Rightarrow>
          (let v = byte_of_uint64 (big_Uint64 x)
           in ValidateSignatureValues v (R t) (S t) False))"

subsection \<open>Validation\<close>

text \<open>
  An \<^verbatim>\<open>error\<close> result is \<open>error option\<close>, \<open>None\<close> for nil. The state database and the
  block number are not read. \<^verbatim>\<open>common.IsPrecompiledContractAddress\<close> is not among the
  sources and is a parameter of \<open>Validate\<close>.
\<close>

definition ValidateMutableValue :: "TxInternalDataDynamicFee \<Rightarrow> 'db \<Rightarrow> uint64 \<Rightarrow> error option" where
  "ValidateMutableValue t stateDB currentBlockNumber = None"

definition Validate ::
  "(address \<Rightarrow> bool) \<Rightarrow> TxInternalDataDynamicFee \<Rightarrow> 'db \<Rightarrow> uint64 \<Rightarrow> error option" where
  "Validate IsPrecompiledContractAddress t stateDB currentBlockNumber =
     (case Recipient t of
        Some a \<Rightarrow>
          (if IsPrecompiledContractAddress a then Some ErrPrecompiledContractAddress
           else ValidateMutableValue t stateDB currentBlockNumber)
      | None \<Rightarrow> ValidateMutableValue t stateDB currentBlockNumber)"

subsection \<open>Execution\<close>

text \<open>
  The virtual machine and the state database act on one world \<open>'w\<close>, passed through the
  calls. Their operations are the capabilities \<open>Execute\<close> is given: \<^verbatim>\<open>vm.Create\<close>
  returns the output, the new contract's address, the gas used and an error, \<^verbatim>\<open>vm.Call\<close>
  the output, the gas used and an error; \<open>'e\<close> is the type of the error results.
\<close>

datatype ContractRef = AccountRef address

fun ContractRef_Address :: "ContractRef \<Rightarrow> address" where
  "ContractRef_Address (AccountRef a) = a"

datatype CodeFormat = CodeFormatEVM

record ('w, 'e) VM =
  Create :: "ContractRef \<Rightarrow> byte list option \<Rightarrow> uint64 \<Rightarrow> bigInt \<Rightarrow> CodeFormat \<Rightarrow> 'w \<Rightarrow>
             (byte list option \<times> address \<times> uint64 \<times> 'e) \<times> 'w"
  Call :: "ContractRef \<Rightarrow> address \<Rightarrow> byte list option \<Rightarrow> uint64 \<Rightarrow> bigInt \<Rightarrow> 'w \<Rightarrow>
           (byte list option \<times> uint64 \<times> 'e) \<times> 'w"

record 'w StateDB =
  IncNonce :: "address \<Rightarrow> 'w \<Rightarrow> 'w"

definition Execute ::
  "TxInternalDataDynamicFee \<Rightarrow> ContractRef \<Rightarrow> ('w, 'e) VM \<Rightarrow> 'w StateDB \<Rightarrow> uint64 \<Rightarrow>
   uint64 \<Rightarrow> bigInt \<Rightarrow> 'w \<Rightarrow> (byte list option \<times> uint64 \<times> 'e) \<times> 'w" where
  "Execute t sender vm stateDB currentBlockNumber gas val w =
     (case Recipient t of
        None \<Rightarrow>
          (case Create vm sender (Payload t) gas val CodeFormatEVM w of
             ((ret, addr, usedGas, err), w') \<Rightarrow> ((ret, usedGas, err), w'))
      | Some to \<Rightarrow>
          (let w1 = IncNonce stateDB (ContractRef_Address sender) w
           in case Call vm sender to (Payload t) gas val w1 of
                ((ret, usedGas, err), w2) \<Rightarrow> ((ret, usedGas, err), w2)))"

subsection \<open>JSON\<close>

text \<open>
  Modelled from the spec: the declarations of \<^verbatim>\<open>TxSignatureJSON\<close> and
  \<^verbatim>\<open>TxSignaturesJSON\<close> are not among the sources. A signature is a triple of
  hex-encoded big integers v, r, s; the signatures are an array of pointers to triples.
  The hex wrapper types \<^verbatim>\<open>hexutil.Big\<close>, \<^verbatim>\<open>hexutil.Uint64\<close> and \<^verbatim>\<open>hexutil.Bytes\<close> hold
  the values they wrap, and the conversions between them and the plain types keep the
  value.
\<close>

datatype TxSignatureJSON = TxSignatureJSON (sigV: bigInt) (sigR: bigInt) (sigS: bigInt)

datatype TxType = TxTypeDynamicFee

text \<open>
  \<^verbatim>\<open>TxInternalDataDynamicFeeJSON\<close>; the fields carry the suffix \<open>J\<close>, since the fields
  of the transaction have the same names.
\<close>

record TxInternalDataDynamicFeeJSON =
  TypeJ :: TxType
  TypeStrJ :: string
  AccountNonceJ :: uint64
  MaxPriorityFeePerGasJ :: bigInt
  MaxFeePerGasJ :: bigInt
  GasLimitJ :: uint64
  RecipientJ :: "address option"
  AmountJ :: bigInt
  PayloadJ :: "byte list option"
  TxSignaturesJ :: "TxSignatureJSON option list"
  AccessListJ :: AccessList
  ChainIDJ :: bigInt
  HashJ :: "hash option"

text \<open>
  \<^verbatim>\<open>MarshalJSON\<close> hands this structure to \<^verbatim>\<open>json.Marshal\<close>, and \<^verbatim>\<open>UnmarshalJSON\<close>
  reads the structure \<^verbatim>\<open>json.Unmarshal\<close> filled. The standard library's text layer
  between the structure and the bytes is not modelled: \<open>MarshalJSON\<close> returns the
  structure, and \<open>UnmarshalJSON\<close> takes the result of \<^verbatim>\<open>json.Unmarshal\<close>, an error or
  the structure. The name of the type, \<^verbatim>\<open>t.Type().String()\<close>, is a parameter.
\<close>

definition Type :: "TxInternalDataDynamicFee \<Rightarrow> TxType" where
  "Type t = TxTypeDynamicFee"

definition MarshalJSON ::
  "(TxType \<Rightarrow> string) \<Rightarrow> TxInternalDataDynamicFee \<Rightarrow> TxInternalDataDynamicFeeJSON" where
  "MarshalJSON String t =
     \<lparr> TypeJ = Type t,
       TypeStrJ = String (Type t),
       AccountNonceJ = AccountNonce t,
       MaxPriorityFeePerGasJ = GasTipCap t,
       MaxFeePerGasJ = GasFeeCap t,
       GasLimitJ = GasLimit t,
       RecipientJ = Recipient t,
       AmountJ = Amount t,
       PayloadJ = Payload t,
       TxSignaturesJ = [Some (TxSignatureJSON (V t) (R t) (S t))],
       AccessListJ = AccessList t,
       ChainIDJ = ChainID t,
       HashJ = Hash t \<rparr>"

text \<open>
  The result is the error returned (\<open>None\<close> for nil) or the panic raised, and the
  receiver as the call leaves it: the first eight assignments are done before the
  signatures are indexed.
\<close>

definition UnmarshalJSON ::
  "TxInternalDataDynamicFee \<Rightarrow> error + TxInternalDataDynamicFeeJSON \<Rightarrow>
   failure option \<times> TxInternalDataDynamicFee" where
  "UnmarshalJSON t parsed =
     (case parsed of
        Inl e \<Rightarrow> (Some (Err e), t)
      | Inr js \<Rightarrow>
          (let t1 = t\<lparr> AccountNonce := AccountNonceJ js,
                       GasTipCap := MaxPriorityFeePerGasJ js,
                       GasFeeCap := MaxFeePerGasJ js,
                       GasLimit := GasLimitJ js,
                       Recipient := RecipientJ js,
                       Amount := AmountJ js,
                       Payload := PayloadJ js,
                       AccessList := AccessListJ js \<rparr>
           in case TxSignaturesJ js of
                [] \<Rightarrow> (Some (Panic IndexOutOfRange), t1)
              | None # _ \<Rightarrow> (Some (Panic NilPointerDereference), t1)
              | Some sg # _ \<Rightarrow>
                  (None, t1\<lparr> V := sigV sg, R := sigR sg, S := sigS sg,
                             Hash := HashJ js, ChainID := ChainIDJ js \<rparr>)))"

subsection \<open>Wire encoding\<close>

text \<open>
  Modelled from the spec: the \<^verbatim>\<open>rlp\<close> package is not among the sources. The wire
  encoding is a structured encoding of every field in declaration order, with the
  recipient permitted to be absent; the cached hash is never part of the wire payload
  (its field is tagged \<^verbatim>\<open>rlp:"-"\<close>). The model stops at the sequence of field values:
  the encoder lists the twelve fields, the decoder fills an empty instance from a
  sequence of that shape and fails on any other.
\<close>

definition rlp_Encode :: "TxInternalDataDynamicFee \<Rightarrow> iface list" where
  "rlp_Encode t =
     [ BigIntPtr (ChainID t),
       Uint64Val (AccountNonce t),
       BigIntPtr (GasTipCap t),
       BigIntPtr (GasFeeCap t),
       Uint64Val (GasLimit t),
       AddressPtr (Recipient t),
       BigIntPtr (Amount t),
       BytesVal (Payload t),
       AccessListVal (AccessList t),
       BigIntPtr (V t),
       BigIntPtr (R t),
       BigIntPtr (S t) ]"

text \<open>
  The decoder reads one field after the other from the front of the sequence; a missing
  item, an item of another type and input left over are decoding errors.
\<close>

definition assertAddressPtr :: "iface option \<Rightarrow> address option option" where
  "assertAddressPtr x = (case x of Some (AddressPtr v) \<Rightarrow> Some v | _ \<Rightarrow> None)"

type_synonym decoding = "error + (iface list \<times> TxInternalDataDynamicFee)"

definition read_field ::
  "(iface option \<Rightarrow> 'a option) \<Rightarrow> ('a \<Rightarrow> TxInternalDataDynamicFee \<Rightarrow> TxInternalDataDynamicFee) \<Rightarrow>
   decoding \<Rightarrow> decoding" where
  "read_field assert store st =
     (case st of
        Inl e \<Rightarrow> Inl e
      | Inr (xs, d) \<Rightarrow>
          (case xs of
             [] \<Rightarrow> Inl (errDecode ''rlp'')
           | x # rest \<Rightarrow>
               (case assert (Some x) of
                  None \<Rightarrow> Inl (errDecode ''rlp'')
                | Some v \<Rightarrow> Inr (rest, store v d))))"

definition rlp_Decode :: "iface list \<Rightarrow> error + TxInternalDataDynamicFee" where
  "rlp_Decode xs =
     (case read_field assertBigInt (\<lambda>v d. d\<lparr>S := v\<rparr>)
          (read_field assertBigInt (\<lambda>v d. d\<lparr>R := v\<rparr>)
          (read_field assertBigInt (\<lambda>v d. d\<lparr>V := v\<rparr>)
          (read_field assertAccessList (\<lambda>v d. d\<lparr>AccessList := v\<rparr>)
          (read_field assertBytes (\<lambda>v d. d\<lparr>Payload := v\<rparr>)
          (read_field assertBigInt (\<lambda>v d. d\<lparr>Amount := v\<rparr>)
          (read_field assertAddressPtr (\<lambda>v d. d\<lparr>Recipient := v\<rparr>)
          (read_field assertUint64 (\<lambda>v d. d\<lparr>GasLimit := v\<rparr>)
          (read_field assertBigInt (\<lambda>v d. d\<lparr>GasFeeCap := v\<rparr>)
          (read_field assertBigInt (\<lambda>v d. d\<lparr>GasTipCap := v\<rparr>)
          (read_field assertUint64 (\<lambda>v d. d\<lparr>AccountNonce := v\<rparr>)
          (read_field assertBigInt (\<lambda>v d. d\<lparr>ChainID := v\<rparr>)
          (Inr (xs, newEmptyTxInternalDataDynamicFee))))))))))))) of
        Inl e \<Rightarrow> Inl e
      | Inr ([], d) \<Rightarrow> Inr d
      | Inr (_ # _, d) \<Rightarrow> Inl (errDecode ''rlp''))"

subsection \<open>Notions used in the statements\<close>

text \<open>The keys the map constructor reads and removes.\<close>

definition required :: "TxValueKeyType set" where
  "required = {TxValueKeyNonce, TxValueKeyTo, TxValueKeyAmount, TxValueKeyData,
     TxValueKeyGasLimit, TxValueKeyGasFeeCap, TxValueKeyGasTipCap, TxValueKeyAccessList,
     TxValueKeyChainID}"

text \<open>
  A valid field combination: each of the seven big-integer cells is allocated and holds
  an unsigned value (the data model's unsigned big integers, never absent), and the
  payload, the access list and the storage keys of each of its tuples are allocated
  slices, as the constructors leave them (a nil slice and an empty one are encoded
  alike).
\<close>

definition cell :: "bigInt \<Rightarrow> bool" where
  "cell x = (case x of None \<Rightarrow> False | Some n \<Rightarrow> 0 \<le> n)"

definition allocated :: "AccessList \<Rightarrow> bool" where
  "allocated al =
     (case al of
        None \<Rightarrow> False
      | Some ts \<Rightarrow> list_all (\<lambda>tu. case StorageKeys tu of None \<Rightarrow> False | Some ks \<Rightarrow> True) ts)"

definition valid_fields :: "TxInternalDataDynamicFee \<Rightarrow> bool" where
  "valid_fields t =
     (cell (ChainID t) \<and> cell (GasTipCap t) \<and> cell (GasFeeCap t) \<and> cell (Amount t) \<and>
      cell (V t) \<and> cell (R t) \<and> cell (S t) \<and>
      (case Payload t of None \<Rightarrow> False | Some bs \<Rightarrow> True) \<and> allocated (AccessList t))"

text \<open>Example inputs: a complete map for the map constructor, and a signed transaction.\<close>

definition example_values :: valueMap where
  "example_values =
     [ TxValueKeyNonce \<mapsto> Uint64Val 7,
       TxValueKeyTo \<mapsto> AddressVal 5,
       TxValueKeyAmount \<mapsto> BigIntPtr (Some 100),
       TxValueKeyData \<mapsto> BytesVal (Some [1, 2]),
       TxValueKeyGasLimit \<mapsto> Uint64Val 21000,
       TxValueKeyGasFeeCap \<mapsto> BigIntPtr (Some 2),
       TxValueKeyGasTipCap \<mapsto> BigIntPtr (Some 1),
       TxValueKeyAccessList \<mapsto> AccessListVal (Some [AccessTuple 9 (Some [3, 4])]),
       TxValueKeyChainID \<mapsto> BigIntPtr (Some 1001) ]"

definition example_tx :: TxInternalDataDynamicFee where
  "example_tx =
     \<lparr> ChainID = Some 1001, AccountNonce = 7, GasTipCap = Some 1, GasFeeCap = Some 2,
       GasLimit = 21000, Recipient = Some 5, Amount = Some 100, Payload = Some [1, 2],
       AccessList = Some [AccessTuple 9 (Some [3, 4]), AccessTuple 8 (Some [])],
       V = Some 1, R = Some 11, S = Some 12, Hash = Some 77 \<rparr>"

section \<open>Construction from explicit values\<close>

lemma copy_into_empty: "copy (Some []) src = Some []"
  by (simp add: copy_def)

lemma WithValues_AccessList_empty:
  "AccessList (newTxInternalDataDynamicFeeWithValues nonce to amount gasLimit gasTipCap
      gasFeeCap data accessList chainID) = Some []"
  by (simp add: newTxInternalDataDynamicFeeWithValues_def newTxInternalDataDynamicFee_def
      copy_into_empty Let_def split: option.splits)

text \<open>
  C1. The claim is that the instance built from explicit values carries the provided
  access list element for element. The constructor starts from the empty list
  \<^verbatim>\<open>AccessList{}\<close> and calls \<^verbatim>\<open>copy\<close> into it, which copies as many elements as the
  destination holds, that is none: for the one-tuple list below the instance's access
  list is empty.
\<close>

theorem WithValues_drops_access_list:
  "AccessList (newTxInternalDataDynamicFeeWithValues 7 (Some 5) (Some 100) 21000 (Some 1)
      (Some 2) (Some [1, 2]) (Some [AccessTuple 9 (Some [3, 4])]) (Some 1001)) = Some []
   \<and> Some [AccessTuple 9 (Some [3, 4])] \<noteq> (Some [] :: AccessList)"
  by (simp add: newTxInternalDataDynamicFeeWithValues_def newTxInternalDataDynamicFee_def
      copy_def len_def CopyBytes_def)

section \<open>Signing payload\<close>

text \<open>
  C2. The signing payload is the sequence nonce, gas tip cap, gas fee cap, gas limit,
  recipient, amount, payload, access list, in that order, and it does not depend on the
  chain id, on the signature triple or on the cached hash.
\<close>

theorem SerializeForSign_fields:
  "SerializeForSign t =
     [Uint64Val (AccountNonce t), BigIntPtr (GasTipCap t), BigIntPtr (GasFeeCap t),
      Uint64Val (GasLimit t), AddressPtr (Recipient t), BigIntPtr (Amount t),
      BytesVal (Payload t), AccessListVal (AccessList t)]
   \<and> SerializeForSign (t\<lparr>ChainID := c, V := v, R := r, S := s, Hash := h\<rparr>) =
       SerializeForSign t"
  by (simp add: SerializeForSign_def)

section \<open>Construction from a keyed map\<close>

lemma take_key_fail: "take_key k as e st (Inl f) = Inl f"
  by (simp add: take_key_def)

lemma take_key_missing:
  "as (vs k) = None \<Longrightarrow> take_key k as e st (Inr (d, vs)) = Inl (Err e, vs)"
  by (simp add: take_key_def)

lemma take_key_vals:
  assumes "take_key k as e st (Inr (d, vs)) = Inr (d', vs')"
  shows "\<exists>v. as (vs k) = Some v \<and> vs' = vs(k := None)"
  using assms by (auto simp: take_key_def split: option.splits sum.splits)

lemma take_key_keeps:
  assumes "take_key k as e st b = Inr (d', vs')"
    and "\<And>v d d'. st v d = Inr d' \<Longrightarrow> Recipient d' = Recipient d"
  shows "\<exists>d vs. b = Inr (d, vs) \<and> Recipient d = Recipient d'"
proof (cases b)
  case (Inl f)
  with assms(1) show ?thesis by (simp add: take_key_def)
next
  case (Inr p)
  obtain d vs where p: "p = (d, vs)" by (cases p)
  from assms(1) Inr p obtain v where "st v d = Inr d'"
    by (auto simp: take_key_def split: option.splits sum.splits)
  with assms(2) Inr p show ?thesis by auto
qed

lemma take_key_To:
  assumes "take_key k assertAddress e (\<lambda>v d. Inr (d\<lparr>Recipient := Some v\<rparr>)) b = Inr (d', vs')"
  shows "\<exists>d vs a. b = Inr (d, vs) \<and> vs k = Some (AddressVal a) \<and> Recipient d' = Some a"
proof (cases b)
  case (Inl f)
  with assms show ?thesis by (simp add: take_key_def)
next
  case (Inr p)
  obtain d vs where p: "p = (d, vs)" by (cases p)
  from assms Inr p show ?thesis
    by (auto simp: take_key_def assertAddress_def split: option.splits iface.splits)
qed

lemma set_keeps_Recipient:
  "set_Amount v d = Inr d' \<Longrightarrow> Recipient d' = Recipient d"
  "set_GasFeeCap v d = Inr d' \<Longrightarrow> Recipient d' = Recipient d"
  "set_GasTipCap v d = Inr d' \<Longrightarrow> Recipient d' = Recipient d"
  "set_ChainID v d = Inr d' \<Longrightarrow> Recipient d' = Recipient d"
  by (auto simp: set_Amount_def set_GasFeeCap_def set_GasTipCap_def set_ChainID_def
      split: sum.splits)

lemma read_keys_Recipient:
  assumes "read_keys vals = Inr (d, vs)"
  shows "\<exists>a. vals TxValueKeyTo = Some (AddressVal a) \<and> Recipient d = Some a"
  apply (insert assms [unfolded read_keys_def])
  apply (drule take_key_keeps, erule set_keeps_Recipient, elim exE conjE)
  apply (drule take_key_keeps, fastforce, elim exE conjE)
  apply (drule take_key_keeps, erule set_keeps_Recipient, elim exE conjE)
  apply (drule take_key_keeps, erule set_keeps_Recipient, elim exE conjE)
  apply (drule take_key_keeps, fastforce, elim exE conjE)
  apply (drule take_key_keeps, fastforce, elim exE conjE)
  apply (drule take_key_keeps, erule set_keeps_Recipient, elim exE conjE)
  apply (drule take_key_To, elim exE conjE)
  apply (drule take_key_vals, elim exE conjE)
  apply (rule_tac x = a in exI)
  apply simp
  done

lemma read_keys_nonce_fail:
  "assertUint64 (vals TxValueKeyNonce) = None \<Longrightarrow>
   read_keys vals = Inl (Err errValueKeyNonceMustUint64, vals)"
  by (simp add: read_keys_def take_key_missing take_key_fail)

lemma copy_make:
  "copy (make_AccessList (len v)) v = Some (case v of None \<Rightarrow> [] | Some xs \<Rightarrow> xs)"
  by (simp add: copy_def make_AccessList_def len_def split: option.splits)

lemma drop_required:
  "vals(TxValueKeyNonce := None, TxValueKeyTo := None, TxValueKeyAmount := None,
        TxValueKeyData := None, TxValueKeyGasLimit := None, TxValueKeyGasFeeCap := None,
        TxValueKeyGasTipCap := None, TxValueKeyAccessList := None, TxValueKeyChainID := None)
   = vals |` (- required)"
  by (rule ext) (simp add: restrict_map_def required_def)

lemma read_keys_ok:
  assumes "vals TxValueKeyNonce = Some (Uint64Val n)"
    and "vals TxValueKeyTo = Some (AddressVal a)"
    and "vals TxValueKeyAmount = Some (BigIntPtr (Some am))"
    and "vals TxValueKeyData = Some (BytesVal p)"
    and "vals TxValueKeyGasLimit = Some (Uint64Val g)"
    and "vals TxValueKeyGasFeeCap = Some (BigIntPtr (Some fee))"
    and "vals TxValueKeyGasTipCap = Some (BigIntPtr (Some tip))"
    and "vals TxValueKeyAccessList = Some (AccessListVal al)"
    and "vals TxValueKeyChainID = Some (BigIntPtr (Some c))"
  shows "read_keys vals =
     Inr (\<lparr> ChainID = Some c, AccountNonce = n, GasTipCap = Some tip, GasFeeCap = Some fee,
            GasLimit = g, Recipient = Some a, Amount = Some am, Payload = p,
            AccessList = Some (case al of None \<Rightarrow> [] | Some xs \<Rightarrow> xs),
            V = Some 0, R = Some 0, S = Some 0, Hash = None \<rparr>,
          vals |` (- required))"
  unfolding read_keys_def drop_required [symmetric]
  using assms
  by (simp add: take_key_def assertUint64_def assertAddress_def assertBigInt_def
      assertBytes_def assertAccessList_def set_Amount_def set_GasFeeCap_def
      set_GasTipCap_def set_ChainID_def big_Set_def copy_make CopyBytes_def
      newTxInternalDataDynamicFee_def)

lemma example_values_lookups:
  "example_values TxValueKeyNonce = Some (Uint64Val 7)"
  "example_values TxValueKeyTo = Some (AddressVal 5)"
  "example_values TxValueKeyAmount = Some (BigIntPtr (Some 100))"
  "example_values TxValueKeyData = Some (BytesVal (Some [1, 2]))"
  "example_values TxValueKeyGasLimit = Some (Uint64Val 21000)"
  "example_values TxValueKeyGasFeeCap = Some (BigIntPtr (Some 2))"
  "example_values TxValueKeyGasTipCap = Some (BigIntPtr (Some 1))"
  "example_values TxValueKeyAccessList = Some (AccessListVal (Some [AccessTuple 9 (Some [3, 4])]))"
  "example_values TxValueKeyChainID = Some (BigIntPtr (Some 1001))"
  "example_values (TxValueKeyOther k) = None"
  by (simp_all add: example_values_def)

lemma example_values_dom: "dom example_values = required"
  by (auto simp: example_values_def required_def split: if_splits)

lemma example_values_rest: "example_values |` (- required) = Map.empty"
  by (rule ext) (simp add: restrict_map_def example_values_def required_def)

lemma example_values_extra_rest:
  "(example_values(TxValueKeyOther k \<mapsto> x)) |` (- required) = [TxValueKeyOther k \<mapsto> x]"
  by (rule ext) (simp add: restrict_map_def example_values_def required_def)

lemma read_keys_example:
  "read_keys (example_values(TxValueKeyOther k \<mapsto> x)) =
     Inr (\<lparr> ChainID = Some 1001, AccountNonce = 7, GasTipCap = Some 1, GasFeeCap = Some 2,
            GasLimit = 21000, Recipient = Some 5, Amount = Some 100, Payload = Some [1, 2],
            AccessList = Some [AccessTuple 9 (Some [3, 4])],
            V = Some 0, R = Some 0, S = Some 0, Hash = None \<rparr>,
          [TxValueKeyOther k \<mapsto> x])"
proof -
  have "read_keys (example_values(TxValueKeyOther k \<mapsto> x)) =
     Inr (\<lparr> ChainID = Some 1001, AccountNonce = 7, GasTipCap = Some 1, GasFeeCap = Some 2,
            GasLimit = 21000, Recipient = Some 5, Amount = Some 100, Payload = Some [1, 2],
            AccessList = Some (case Some [AccessTuple 9 (Some [3, 4])] of
                                 None \<Rightarrow> [] | Some xs \<Rightarrow> xs),
            V = Some 0, R = Some 0, S = Some 0, Hash = None \<rparr>,
          (example_values(TxValueKeyOther k \<mapsto> x)) |` (- required))"
    by (rule read_keys_ok) (simp_all add: example_values_lookups)
  then show ?thesis
    by (simp only: example_values_extra_rest option.case)
qed

lemma WithMap_example_extra:
  "newTxInternalDataDynamicFeeWithMap (example_values(TxValueKeyOther k \<mapsto> x)) =
     (Inl (Err errUndefinedKeyRemains), [TxValueKeyOther k \<mapsto> x],
      {Warn ''unnecessary key'' (TxValueKeyOther k)})"
  by (simp add: newTxInternalDataDynamicFeeWithMap_def read_keys_example)

lemma WithMap_example:
  "newTxInternalDataDynamicFeeWithMap example_values =
     (Inr \<lparr> ChainID = Some 1001, AccountNonce = 7, GasTipCap = Some 1, GasFeeCap = Some 2,
            GasLimit = 21000, Recipient = Some 5, Amount = Some 100, Payload = Some [1, 2],
            AccessList = Some [AccessTuple 9 (Some [3, 4])],
            V = Some 0, R = Some 0, S = Some 0, Hash = None \<rparr>,
      Map.empty, {})"
  by (simp add: newTxInternalDataDynamicFeeWithMap_def
      read_keys_ok [where vals = example_values] example_values_lookups example_values_rest)

text \<open>
  A nil pointer of type \<^verbatim>\<open>*big.Int\<close> passes the type assertion, and \<^verbatim>\<open>Set\<close> then
  reads it: under the amount key it makes the constructor panic, with the nonce and the
  recipient keys already removed from the map. The same holds for the fee cap, the tip
  cap and the chain id.
\<close>

lemma WithMap_nil_Amount:
  assumes "vals TxValueKeyNonce = Some (Uint64Val n)"
    and "vals TxValueKeyTo = Some (AddressVal a)"
    and "vals TxValueKeyAmount = Some (BigIntPtr None)"
  shows "newTxInternalDataDynamicFeeWithMap vals =
     (Inl (Panic NilPointerDereference),
      vals(TxValueKeyNonce := None, TxValueKeyTo := None), {})"
  using assms
  by (simp add: newTxInternalDataDynamicFeeWithMap_def read_keys_def take_key_def
      assertUint64_def assertAddress_def assertBigInt_def set_Amount_def big_Set_def)

text \<open>
  C6, as the claim states it, has the failure for a leftover key name that key in the
  error. The constructor returns the one error \<^verbatim>\<open>errUndefinedKeyRemains\<close> whatever the
  key is: a complete map with the extra key "foo" and the same map with the extra key
  "bar" fail with the same error value, so the error names neither.
\<close>

theorem WithMap_error_names_no_key:
  "fst (newTxInternalDataDynamicFeeWithMap
          (example_values(TxValueKeyOther ''foo'' \<mapsto> OtherVal ''x''))) =
   fst (newTxInternalDataDynamicFeeWithMap
          (example_values(TxValueKeyOther ''bar'' \<mapsto> OtherVal ''x'')))
   \<and> TxValueKeyOther ''foo'' \<noteq> TxValueKeyOther ''bar''"
  by (simp add: WithMap_example_extra)

text \<open>
  C6, amended. When the nonce key is missing or its value is not a \<^verbatim>\<open>uint64\<close>, the
  constructor fails with the nonce error, the map is left as it was (no entry removed, no
  cell of it written) and nothing is logged. When the nine required keys hold values of
  their types, the big integers under the amount, fee cap, tip cap and chain id keys
  being allocated cells and not nil pointers, and some other key is present too, the
  constructor fails with \<^verbatim>\<open>errUndefinedKeyRemains\<close>; by then the nine keys are
  removed from the map, the other entries are left, and one warning is logged for each
  leftover key, naming it.
\<close>

theorem WithMap_failures:
  "(assertUint64 (vals TxValueKeyNonce) = None \<longrightarrow>
      newTxInternalDataDynamicFeeWithMap vals =
        (Inl (Err errValueKeyNonceMustUint64), vals, {}))
   \<and> (vals TxValueKeyNonce = Some (Uint64Val n) \<and>
       vals TxValueKeyTo = Some (AddressVal a) \<and>
       vals TxValueKeyAmount = Some (BigIntPtr (Some am)) \<and>
       vals TxValueKeyData = Some (BytesVal p) \<and>
       vals TxValueKeyGasLimit = Some (Uint64Val g) \<and>
       vals TxValueKeyGasFeeCap = Some (BigIntPtr (Some fee)) \<and>
       vals TxValueKeyGasTipCap = Some (BigIntPtr (Some tip)) \<and>
       vals TxValueKeyAccessList = Some (AccessListVal al) \<and>
       vals TxValueKeyChainID = Some (BigIntPtr (Some c)) \<and>
       vals (TxValueKeyOther k) = Some x \<longrightarrow>
      newTxInternalDataDynamicFeeWithMap vals =
        (Inl (Err errUndefinedKeyRemains), vals |` (- required),
         Warn ''unnecessary key'' ` (dom vals - required)))"
proof (intro conjI impI)
  assume "assertUint64 (vals TxValueKeyNonce) = None"
  then show "newTxInternalDataDynamicFeeWithMap vals =
      (Inl (Err errValueKeyNonceMustUint64), vals, {})"
    by (simp add: newTxInternalDataDynamicFeeWithMap_def read_keys_nonce_fail)
next
  assume h: "vals TxValueKeyNonce = Some (Uint64Val n) \<and>
       vals TxValueKeyTo = Some (AddressVal a) \<and>
       vals TxValueKeyAmount = Some (BigIntPtr (Some am)) \<and>
       vals TxValueKeyData = Some (BytesVal p) \<and>
       vals TxValueKeyGasLimit = Some (Uint64Val g) \<and>
       vals TxValueKeyGasFeeCap = Some (BigIntPtr (Some fee)) \<and>
       vals TxValueKeyGasTipCap = Some (BigIntPtr (Some tip)) \<and>
       vals TxValueKeyAccessList = Some (AccessListVal al) \<and>
       vals TxValueKeyChainID = Some (BigIntPtr (Some c)) \<and>
       vals (TxValueKeyOther k) = Some x"
  then have r: "read_keys vals =
     Inr (\<lparr> ChainID = Some c, AccountNonce = n, GasTipCap = Some tip, GasFeeCap = Some fee,
            GasLimit = g, Recipient = Some a, Amount = Some am, Payload = p,
            AccessList = Some (case al of None \<Rightarrow> [] | Some xs \<Rightarrow> xs),
            V = Some 0, R = Some 0, S = Some 0, Hash = None \<rparr>,
          vals |` (- required))"
    by (intro read_keys_ok) simp_all
  have "TxValueKeyOther k \<notin> required"
    by (simp add: required_def)
  with h have "(vals |` (- required)) (TxValueKeyOther k) = Some x"
    by (simp add: restrict_map_def)
  then have ne: "vals |` (- required) \<noteq> Map.empty"
    by (metis option.distinct(1))
  show "newTxInternalDataDynamicFeeWithMap vals =
      (Inl (Err errUndefinedKeyRemains), vals |` (- required),
       Warn ''unnecessary key'' ` (dom vals - required))"
    by (simp add: newTxInternalDataDynamicFeeWithMap_def r ne Diff_eq)
qed

theorem WithMap_failures_witness:
  "assertUint64 (Map.empty TxValueKeyNonce) = None
   \<and> newTxInternalDataDynamicFeeWithMap Map.empty =
       (Inl (Err errValueKeyNonceMustUint64), Map.empty, {})
   \<and> assertUint64 ((example_values(TxValueKeyNonce \<mapsto> OtherVal ''7'')) TxValueKeyNonce) = None
   \<and> newTxInternalDataDynamicFeeWithMap (example_values(TxValueKeyNonce \<mapsto> OtherVal ''7'')) =
       (Inl (Err errValueKeyNonceMustUint64),
        example_values(TxValueKeyNonce \<mapsto> OtherVal ''7''), {})
   \<and> (example_values(TxValueKeyOther ''foo'' \<mapsto> OtherVal ''x'')) (TxValueKeyOther ''foo'') =
       Some (OtherVal ''x'')
   \<and> newTxInternalDataDynamicFeeWithMap
         (example_values(TxValueKeyOther ''foo'' \<mapsto> OtherVal ''x'')) =
       (Inl (Err errUndefinedKeyRemains), [TxValueKeyOther ''foo'' \<mapsto> OtherVal ''x''],
        {Warn ''unnecessary key'' (TxValueKeyOther ''foo'')})"
proof -
  have a: "assertUint64 (Map.empty TxValueKeyNonce) = None"
    by (simp add: assertUint64_def)
  have b: "assertUint64 ((example_values(TxValueKeyNonce \<mapsto> OtherVal ''7''))
      TxValueKeyNonce) = None"
    by (simp add: assertUint64_def)
  have c: "insert (TxValueKeyOther ''foo'') (dom example_values) - required =
      {TxValueKeyOther ''foo''}"
    by (auto simp: example_values_dom required_def)
  note t1 = WithMap_failures [of Map.empty, THEN conjunct1, rule_format, OF a]
  note t2 = WithMap_failures [of "example_values(TxValueKeyNonce \<mapsto> OtherVal ''7'')",
      THEN conjunct1, rule_format, OF b]
  note t3 = WithMap_failures [of "example_values(TxValueKeyOther ''foo'' \<mapsto> OtherVal ''x'')"
      7 5 100 "Some [1, 2]" 21000 2 1 "Some [AccessTuple 9 (Some [3, 4])]" 1001
      "''foo''" "OtherVal ''x''", THEN conjunct2, rule_format]
  have t3': "newTxInternalDataDynamicFeeWithMap
         (example_values(TxValueKeyOther ''foo'' \<mapsto> OtherVal ''x'')) =
       (Inl (Err errUndefinedKeyRemains), [TxValueKeyOther ''foo'' \<mapsto> OtherVal ''x''],
        {Warn ''unnecessary key'' (TxValueKeyOther ''foo'')})"
    using t3 by (simp add: example_values_lookups example_values_extra_rest c
        del: restrict_fun_upd)
  show ?thesis
    using a b t1 t2 t3' by simp
qed

text \<open>
  C10. Whenever the map constructor returns an instance, the map held an address value
  under the recipient key and the instance's recipient is that address: no instance built
  from a map has an absent recipient.
\<close>

theorem WithMap_Recipient_present:
  assumes "newTxInternalDataDynamicFeeWithMap vals = (Inr d, vs, lg)"
  shows "\<exists>a. vals TxValueKeyTo = Some (AddressVal a) \<and> Recipient d = Some a"
proof (cases "read_keys vals")
  case (Inl f)
  with assms show ?thesis
    by (simp add: newTxInternalDataDynamicFeeWithMap_def split: prod.splits)
next
  case (Inr p)
  obtain d' vs' where p: "p = (d', vs')" by (cases p)
  with Inr assms have "d' = d"
    by (simp add: newTxInternalDataDynamicFeeWithMap_def split: if_splits)
  with Inr p show ?thesis
    by (simp add: read_keys_Recipient)
qed

theorem WithMap_Recipient_present_witness:
  "fst (newTxInternalDataDynamicFeeWithMap example_values) =
     Inr \<lparr> ChainID = Some 1001, AccountNonce = 7, GasTipCap = Some 1, GasFeeCap = Some 2,
           GasLimit = 21000, Recipient = Some 5, Amount = Some 100, Payload = Some [1, 2],
           AccessList = Some [AccessTuple 9 (Some [3, 4])],
           V = Some 0, R = Some 0, S = Some 0, Hash = None \<rparr>
   \<and> (\<exists>a. example_values TxValueKeyTo = Some (AddressVal a) \<and>
        Recipient \<lparr> ChainID = Some 1001, AccountNonce = 7, GasTipCap = Some 1,
           GasFeeCap = Some 2, GasLimit = 21000, Recipient = Some 5, Amount = Some 100,
           Payload = Some [1, 2], AccessList = Some [AccessTuple 9 (Some [3, 4])],
           V = Some 0, R = Some 0, S = Some 0, Hash = None \<rparr> = Some a)"
  using WithMap_Recipient_present [OF WithMap_example]
  by (simp add: WithMap_example)

section \<open>Equality\<close>

lemma big_Cmp_cells: "big_Cmp_is_0 (Some a) (Some b) = Inr (a = b)"
  by (simp add: big_Cmp_is_0_def)

lemma big_Cmp_refl: "cell x \<Longrightarrow> big_Cmp_is_0 x x = Inr True"
  by (cases x) (simp_all add: big_Cmp_is_0_def cell_def)

lemma andalso_simps:
  "andalso (Inr True) b = b"
  "andalso (Inr False) b = Inr False"
  "andalso (Inl f) b = Inl f"
  by (simp_all add: andalso_def)

text \<open>
  What \<open>Equal\<close> compares, for two instances with all cells allocated: every field but
  the payload and the cached hash.
\<close>

lemma Equal_compares:
  assumes "valid_fields t" and "valid_fields ta"
  shows "Equal t (DynamicFee ta) =
     Inr (ChainID t = ChainID ta \<and> AccountNonce t = AccountNonce ta \<and>
          GasFeeCap t = GasFeeCap ta \<and> GasTipCap t = GasTipCap ta \<and>
          GasLimit t = GasLimit ta \<and> Recipient t = Recipient ta \<and>
          Amount t = Amount ta \<and> AccessList t = AccessList ta \<and>
          V t = V ta \<and> R t = R ta \<and> S t = S ta)"
proof -
  have c: "\<And>x y. cell x \<Longrightarrow> cell y \<Longrightarrow> big_Cmp_is_0 x y = Inr (x = y)"
    by (auto simp: cell_def big_Cmp_is_0_def split: option.splits)
  from assms show ?thesis
    by (simp add: Equal_def valid_fields_def c andalso_def equalRecipient_def DeepEqual_def)
qed

lemma Equal_self:
  assumes "valid_fields t"
  shows "Equal (t\<lparr>Hash := h\<rparr>) (DynamicFee t) = Inr True"
  using assms
  by (simp add: Equal_def valid_fields_def big_Cmp_refl andalso_def equalRecipient_def
      DeepEqual_def)

text \<open>
  C5. The claim is that \<open>Equal\<close> holds exactly when every field but the cached hash
  agrees, the payload among them. \<open>Equal\<close> never reads the payload: two instances built
  from the same explicit values except for the payload bytes compare equal.
\<close>

theorem Equal_ignores_Payload:
  "Equal (newTxInternalDataDynamicFeeWithValues 7 (Some 5) (Some 100) 21000 (Some 1)
            (Some 2) (Some [1, 2]) (Some []) (Some 1001))
         (DynamicFee (newTxInternalDataDynamicFeeWithValues 7 (Some 5) (Some 100) 21000
            (Some 1) (Some 2) (Some [3]) (Some []) (Some 1001))) = Inr True
   \<and> Payload (newTxInternalDataDynamicFeeWithValues 7 (Some 5) (Some 100) 21000 (Some 1)
            (Some 2) (Some [1, 2]) (Some []) (Some 1001)) = Some [1, 2]
   \<and> Payload (newTxInternalDataDynamicFeeWithValues 7 (Some 5) (Some 100) 21000 (Some 1)
            (Some 2) (Some [3]) (Some []) (Some 1001)) = Some [3]"
  by (simp add: newTxInternalDataDynamicFeeWithValues_def newTxInternalDataDynamicFee_def
      copy_def len_def CopyBytes_def Equal_def big_Cmp_cells andalso_simps
      equalRecipient_def DeepEqual_def)

section \<open>Encodings\<close>

lemma rlp_roundtrip: "rlp_Decode (rlp_Encode t) = Inr (t\<lparr>Hash := None\<rparr>)"
  by (simp add: rlp_Decode_def rlp_Encode_def read_field_def assertBigInt_def
      assertUint64_def assertBytes_def assertAccessList_def assertAddressPtr_def
      newEmptyTxInternalDataDynamicFee_def)

lemma json_roundtrip: "UnmarshalJSON t0 (Inr (MarshalJSON String t)) = (None, t)"
  by (simp add: UnmarshalJSON_def MarshalJSON_def)

lemma valid_example_tx: "valid_fields example_tx"
  by (simp add: valid_fields_def example_tx_def cell_def allocated_def)

text \<open>
  C3. For every valid field combination, decoding the wire encoding gives the instance
  itself but for the cached hash, which the wire leaves out and \<open>Equal\<close> does not read:
  \<open>Equal\<close> accepts the decoded instance as the original, and its access list is the
  original's, tuple for tuple and key for key in the same order. \<open>UnmarshalJSON\<close> on what
  \<open>MarshalJSON\<close> produced gives the instance itself, whatever the receiver held before,
  and \<open>Equal\<close> accepts it.
\<close>

theorem decode_encode_Equal:
  assumes "valid_fields t"
  shows "rlp_Decode (rlp_Encode t) = Inr (t\<lparr>Hash := None\<rparr>)
       \<and> Equal (t\<lparr>Hash := None\<rparr>) (DynamicFee t) = Inr True
       \<and> AccessList (t\<lparr>Hash := None\<rparr>) = AccessList t
       \<and> UnmarshalJSON t0 (Inr (MarshalJSON String t)) = (None, t)
       \<and> Equal t (DynamicFee t) = Inr True"
proof -
  from assms have "Equal (t\<lparr>Hash := None\<rparr>) (DynamicFee t) = Inr True"
    by (rule Equal_self)
  moreover from assms have "Equal (t\<lparr>Hash := Hash t\<rparr>) (DynamicFee t) = Inr True"
    by (rule Equal_self)
  ultimately show ?thesis
    by (simp add: rlp_roundtrip json_roundtrip)
qed

theorem decode_encode_Equal_witness:
  "valid_fields example_tx
   \<and> rlp_Decode (rlp_Encode example_tx) = Inr (example_tx\<lparr>Hash := None\<rparr>)
   \<and> Equal (example_tx\<lparr>Hash := None\<rparr>) (DynamicFee example_tx) = Inr True
   \<and> AccessList (example_tx\<lparr>Hash := None\<rparr>) =
       Some [AccessTuple 9 (Some [3, 4]), AccessTuple 8 (Some [])]
   \<and> UnmarshalJSON newEmptyTxInternalDataDynamicFee
        (Inr (MarshalJSON (\<lambda>ty. ''TxTypeDynamicFee'') example_tx)) = (None, example_tx)
   \<and> Equal example_tx (DynamicFee example_tx) = Inr True"
proof -
  have al: "AccessList example_tx = Some [AccessTuple 9 (Some [3, 4]), AccessTuple 8 (Some [])]"
    by (simp add: example_tx_def)
  show ?thesis
    using valid_example_tx
      decode_encode_Equal [OF valid_example_tx, of newEmptyTxInternalDataDynamicFee
        "\<lambda>ty. ''TxTypeDynamicFee''"]
    by (simp add: al)
qed

text \<open>
  C9. The claim is that a JSON payload whose signatures array is empty, or whose signature
  lacks v, r or s, makes \<open>UnmarshalJSON\<close> fail with an error. The function indexes the
  first signature without a check of the length: on the structure decoded from a payload
  with an empty signatures array it panics, and on one whose signature has no v it
  returns nil and leaves the cell \<open>V\<close> nil.
\<close>

theorem UnmarshalJSON_signatures_unchecked:
  "fst (UnmarshalJSON newEmptyTxInternalDataDynamicFee
          (Inr ((MarshalJSON (\<lambda>ty. ''TxTypeDynamicFee'') example_tx)
                  \<lparr>TxSignaturesJ := []\<rparr>))) = Some (Panic IndexOutOfRange)
   \<and> fst (UnmarshalJSON newEmptyTxInternalDataDynamicFee
          (Inr ((MarshalJSON (\<lambda>ty. ''TxTypeDynamicFee'') example_tx)
                  \<lparr>TxSignaturesJ := [Some (TxSignatureJSON None (Some 11) (Some 12))]\<rparr>))) = None
   \<and> V (snd (UnmarshalJSON newEmptyTxInternalDataDynamicFee
          (Inr ((MarshalJSON (\<lambda>ty. ''TxTypeDynamicFee'') example_tx)
                  \<lparr>TxSignaturesJ := [Some (TxSignatureJSON None (Some 11) (Some 12))]\<rparr>)))) = None"
  by (simp add: UnmarshalJSON_def MarshalJSON_def)

section \<open>Validation\<close>

text \<open>
  C7. \<open>Validate\<close> returns \<^verbatim>\<open>ErrPrecompiledContractAddress\<close> whenever the recipient is
  present and is a precompiled contract address, and returns nil for every transaction
  with an absent recipient.
\<close>

theorem Validate_recipient:
  "(Recipient t = Some a \<and> IsPrecompiledContractAddress a \<longrightarrow>
      Validate IsPrecompiledContractAddress t stateDB currentBlockNumber =
        Some ErrPrecompiledContractAddress)
   \<and> (Recipient t = None \<longrightarrow>
      Validate IsPrecompiledContractAddress t stateDB currentBlockNumber = None)"
  by (simp add: Validate_def ValidateMutableValue_def)

theorem Validate_recipient_witness:
  "Recipient (example_tx\<lparr>Recipient := Some 9\<rparr>) = Some 9
   \<and> (0 < (9::address) \<and> (9::address) \<le> 1023)
   \<and> Validate (\<lambda>a. 0 < a \<and> a \<le> 1023) (example_tx\<lparr>Recipient := Some 9\<rparr>) () 1 =
       Some ErrPrecompiledContractAddress
   \<and> Recipient (example_tx\<lparr>Recipient := None\<rparr>) = None
   \<and> Validate (\<lambda>a. 0 < a \<and> a \<le> 1023) (example_tx\<lparr>Recipient := None\<rparr>) () 1 = None"
  using Validate_recipient [of "example_tx\<lparr>Recipient := Some 9\<rparr>" 9
      "\<lambda>a. 0 < a \<and> a \<le> 1023" "()" 1]
    Validate_recipient [of "example_tx\<lparr>Recipient := None\<rparr>" 9
      "\<lambda>a. 0 < a \<and> a \<le> 1023" "()" 1]
  by simp

section \<open>Execution\<close>

text \<open>
  C8. With an absent recipient, \<open>Execute\<close> is \<^verbatim>\<open>vm.Create\<close> on the world as given, with
  the payload as code, and its output, gas used and error are returned as they are: no
  nonce is incremented by \<open>Execute\<close>. With a present recipient, \<open>Execute\<close> is \<^verbatim>\<open>vm.Call\<close>
  with the payload as input on the world after one \<^verbatim>\<open>IncNonce\<close> of the sender's address,
  and the result of the call is returned as it is.
\<close>

theorem Execute_dispatch:
  "(Recipient t = None \<longrightarrow>
      Execute t sender vm stateDB currentBlockNumber gas val w =
        (case Create vm sender (Payload t) gas val CodeFormatEVM w of
           ((ret, addr, usedGas, err), w') \<Rightarrow> ((ret, usedGas, err), w')))
   \<and> (Recipient t = Some to \<longrightarrow>
      Execute t sender vm stateDB currentBlockNumber gas val w =
        Call vm sender to (Payload t) gas val
          (IncNonce stateDB (ContractRef_Address sender) w))"
  by (simp add: Execute_def split: prod.splits)

text \<open>
  The witness runs \<open>Execute\<close> on a world that is the list of the operations performed,
  with operations that append their names.
\<close>

theorem Execute_dispatch_witness:
  "Recipient (example_tx\<lparr>Recipient := None\<rparr>) = None
   \<and> Execute (example_tx\<lparr>Recipient := None\<rparr>) (AccountRef 3)
       \<lparr> Create = (\<lambda>s code g v f w. ((code, 4, g - 1, ''reverted''), w @ [''Create''])),
         Call = (\<lambda>s to inp g v w. ((inp, g - 2, ''out of gas''), w @ [''Call''])) \<rparr>
       \<lparr> IncNonce = (\<lambda>a w. w @ [''IncNonce'']) \<rparr> 1 21000 (Some 100) [] =
       ((Some [1, 2], 20999, ''reverted''), [''Create''])
   \<and> Recipient example_tx = Some 5
   \<and> Execute example_tx (AccountRef 3)
       \<lparr> Create = (\<lambda>s code g v f w. ((code, 4, g - 1, ''reverted''), w @ [''Create''])),
         Call = (\<lambda>s to inp g v w. ((inp, g - 2, ''out of gas''), w @ [''Call''])) \<rparr>
       \<lparr> IncNonce = (\<lambda>a w. w @ [''IncNonce'']) \<rparr> 1 21000 (Some 100) [] =
       ((Some [1, 2], 20998, ''out of gas''), [''IncNonce'', ''Call''])"
  using Execute_dispatch [of "example_tx\<lparr>Recipient := None\<rparr>" "AccountRef 3"
      "\<lparr> Create = (\<lambda>s code g v f w. ((code, 4, g - 1, ''reverted''), w @ [''Create''])),
         Call = (\<lambda>s to inp g v w. ((inp, g - 2, ''out of gas''), w @ [''Call''])) \<rparr>"
      "\<lparr> IncNonce = (\<lambda>a w. w @ [''IncNonce'']) \<rparr>" 1 21000 "Some 100" "[]" 5]
    Execute_dispatch [of example_tx "AccountRef 3"
      "\<lparr> Create = (\<lambda>s code g v f w. ((code, 4, g - 1, ''reverted''), w @ [''Create''])),
         Call = (\<lambda>s to inp g v w. ((inp, g - 2, ''out of gas''), w @ [''Call''])) \<rparr>"
      "\<lparr> IncNonce = (\<lambda>a w. w @ [''IncNonce'']) \<rparr>" 1 21000 "Some 100" "[]" 5]
  by (simp add: example_tx_def)

end
